theory Spec2Isabelle
  imports Complex_Main
begin

section \<open>Tensors\<close>

text \<open>
  The source computes on torch tensors of 32-bit floats. A one-dimensional tensor is a
  \<open>real list\<close>, a two-dimensional one a list of rows, a three-dimensional one a list
  of matrices. The entries are exact reals: rounding is outside this development. The one
  float32 scalar that decides the control flow, the residual compared in the search, keeps
  its special values (see \<open>float_value\<close> below).
\<close>

type_synonym vec = "real list"
type_synonym mat = "real list list"
type_synonym tensor3 = "real list list list"

datatype py_error = IndexError | ValueError | KeyError | UnboundLocalError

text \<open>\<open>is_matrix m n M\<close>: the tensor \<open>M\<close> has shape \<open>m \<times> n\<close>.\<close>

definition is_matrix :: "nat \<Rightarrow> nat \<Rightarrow> mat \<Rightarrow> bool" where
  "is_matrix m n M = (length M = m \<and> list_all (\<lambda>r. length r = n) M)"

text \<open>\<open>t[:, j]\<close>\<close>

definition column :: "nat \<Rightarrow> mat \<Rightarrow> vec" where
  "column j M = map (\<lambda>r. r ! j) M"

text \<open>\<open>-v\<close> and \<open>v / c\<close>, elementwise.\<close>

definition vneg :: "vec \<Rightarrow> vec" where
  "vneg v = map uminus v"

definition vdiv :: "vec \<Rightarrow> real \<Rightarrow> vec" where
  "vdiv v c = map (\<lambda>x. x / c) v"

text \<open>
  \<open>t.permute(2, 1, 0)\<close> of a three-dimensional tensor: entry \<open>[k][j][i]\<close> of the
  result is entry \<open>[i][j][k]\<close> of \<open>t\<close>.
\<close>

definition dim1 :: "'a list list \<Rightarrow> nat" where
  "dim1 t = (case t of [] \<Rightarrow> 0 | r # _ \<Rightarrow> length r)"

definition dim2 :: "'a list list list \<Rightarrow> nat" where
  "dim2 t = (case t of [] \<Rightarrow> 0 | r # _ \<Rightarrow> dim1 r)"

definition permute_210 :: "tensor3 \<Rightarrow> tensor3" where
  "permute_210 t =
     map (\<lambda>k. map (\<lambda>j. map (\<lambda>i. t ! i ! j ! k) [0..<length t]) [0..<dim1 t]) [0..<dim2 t]"

section \<open>dimensions\_to\_corners\<close>

text \<open>
  \<open>dimensions\<close> is an \<open>N \<times> 3\<close> tensor of rows \<open>[h, w, l]\<close>. Reading column 2 of a
  tensor with fewer than three columns raises IndexError. In Python \<open>-l/2.0\<close> is
  \<open>(-l)/2.0\<close>. \<open>torch.stack\<close> of a Python list of equally shaped tensors is the list
  itself, one dimension up.
\<close>

definition dimensions_to_corners :: "mat \<Rightarrow> py_error + tensor3" where
  "dimensions_to_corners dimensions =
     (if \<not> list_all (\<lambda>r. 3 \<le> length r) dimensions then Inl IndexError
      else
        let h = column 0 dimensions; w = column 1 dimensions; l = column 2 dimensions;
            zeros = replicate (length dimensions) 0;
            corner_x = [vdiv l 2, vdiv (vneg l) 2, vdiv (vneg l) 2, vdiv l 2,
                        vdiv l 2, vdiv (vneg l) 2, vdiv (vneg l) 2, vdiv l 2];
            corner_y = [zeros, zeros, zeros, zeros, vneg h, vneg h, vneg h, vneg h];
            corner_z = [vdiv w 2, vdiv w 2, vdiv (vneg w) 2, vdiv (vneg w) 2,
                        vdiv w 2, vdiv w 2, vdiv (vneg w) 2, vdiv (vneg w) 2];
            corners = [corner_x, corner_y, corner_z]
        in Inr (permute_210 corners))"

text \<open>
  The corner table of the specification (section 4.1), for one row \<open>[h, w, l]\<close>:
  index 0 to 7, each corner \<open>[x, y, z]\<close>.
\<close>

definition corner_table :: "real \<Rightarrow> real \<Rightarrow> real \<Rightarrow> mat" where
  "corner_table h w l =
     [[ l / 2,  0,  w / 2], [- l / 2,  0,  w / 2], [- l / 2,  0, - w / 2], [ l / 2,  0, - w / 2],
      [ l / 2, - h,  w / 2], [- l / 2, - h,  w / 2], [- l / 2, - h, - w / 2], [ l / 2, - h, - w / 2]]"

section \<open>Tensor operations used by the solver\<close>

definition dot :: "vec \<Rightarrow> vec \<Rightarrow> real" where
  "dot u v = sum_list (map2 (*) u v)"

text \<open>\<open>torch.matmul\<close> of two matrices, and of a matrix and a vector.\<close>

definition matmul :: "mat \<Rightarrow> mat \<Rightarrow> mat" where
  "matmul M N = map (\<lambda>r. map (\<lambda>j. dot r (column j N)) [0..<dim1 N]) M"

definition matvec :: "mat \<Rightarrow> vec \<Rightarrow> vec" where
  "matvec M v = map (\<lambda>r. dot r v) M"

definition vsub :: "vec \<Rightarrow> vec \<Rightarrow> vec" where
  "vsub u v = map2 (-) u v"

definition smul :: "real \<Rightarrow> vec \<Rightarrow> vec" where
  "smul c v = map ((*) c) v"

text \<open>The Euclidean norm of a vector: \<open>torch.norm\<close> in exact arithmetic.\<close>

definition norm2 :: "vec \<Rightarrow> real" where
  "norm2 v = sqrt (sum_list (map (\<lambda>x. x * x) v))"

text \<open>\<open>torch.eye(n)\<close> and \<open>torch.zeros(m, n)\<close>.\<close>

definition eye :: "nat \<Rightarrow> mat" where
  "eye n = map (\<lambda>i. map (\<lambda>j. if i = j then 1 else 0) [0..<n]) [0..<n]"

definition zeros2 :: "nat \<Rightarrow> nat \<Rightarrow> mat" where
  "zeros2 m n = replicate m (replicate n 0)"

text \<open>\<open>M[:3, :3] = B\<close> and \<open>M[:3, 3] = v\<close>: the other entries of \<open>M\<close> stay.\<close>

definition assign_block33 :: "mat \<Rightarrow> mat \<Rightarrow> mat" where
  "assign_block33 M B =
     map (\<lambda>i. map (\<lambda>j. if i < 3 \<and> j < 3 then B ! i ! j else M ! i ! j) [0..<dim1 M])
       [0..<length M]"

definition assign_col3 :: "mat \<Rightarrow> vec \<Rightarrow> mat" where
  "assign_col3 M v =
     map (\<lambda>i. map (\<lambda>j. if i < 3 \<and> j = 3 then v ! i else M ! i ! j) [0..<dim1 M])
       [0..<length M]"

text \<open>
  \<open>torch.atan2(y, x)\<close> on reals: the angle in \<open>(-\<pi>, \<pi>]\<close> of the point \<open>(x, y)\<close>,
  and 0 at the origin.
\<close>

definition atan2 :: "real \<Rightarrow> real \<Rightarrow> real" where
  "atan2 y x =
     (if 0 < x then arctan (y / x)
      else if x < 0 then (if 0 \<le> y then arctan (y / x) + pi else arctan (y / x) - pi)
      else if 0 < y then pi / 2
      else if y < 0 then - pi / 2
      else 0)"

section \<open>solve\_3d\_bbox\_single\<close>

subsection \<open>Calibration, ray angle, yaw and rotated corners\<close>

text \<open>\<open>R0_rect = torch.eye(4); R0_rect[:3, :3] = calib['R0_rect']; K = P2 @ R0_rect\<close>\<close>

definition R0_rect_homogeneous :: "mat \<Rightarrow> mat" where
  "R0_rect_homogeneous R0 = assign_block33 (eye 4) R0"

definition projection_K :: "mat \<Rightarrow> mat \<Rightarrow> mat" where
  "projection_K P2 R0 = matmul P2 (R0_rect_homogeneous R0)"

definition theta_ray :: "mat \<Rightarrow> real \<Rightarrow> real \<Rightarrow> real" where
  "theta_ray P2 x1 x2 = atan2 (P2 ! 0 ! 0) ((x1 + x2) * 0.5 - P2 ! 0 ! 2)"

definition global_ry :: "mat \<Rightarrow> real \<Rightarrow> real \<Rightarrow> real \<Rightarrow> real" where
  "global_ry P2 x1 x2 theta_l = pi - theta_ray P2 x1 x2 - theta_l"

definition Ry_T :: "real \<Rightarrow> mat" where
  "Ry_T ry = [[cos ry, 0, - sin ry],
              [0,      1, 0],
              [sin ry, 0, cos ry]]"

definition rotated_corners :: "mat \<Rightarrow> real \<Rightarrow> mat" where
  "rotated_corners corners ry = matmul corners (Ry_T ry)"

subsection \<open>Constraints\<close>

text \<open>
  \<open>constrains[kind][i]\<close> is a dictionary with the two keys \<open>'A'\<close> and \<open>'b'\<close>;
  \<open>constrains\<close> has the four keys \<open>'x1'\<close>, \<open>'x2'\<close>, \<open>'y1'\<close>, \<open>'y2'\<close>, each a
  dictionary from corner indices.
\<close>

record constraint =
  con_A :: vec
  con_b :: real

record constrains_dict =
  cs_x1 :: "nat \<rightharpoonup> constraint"
  cs_x2 :: "nat \<rightharpoonup> constraint"
  cs_y1 :: "nat \<rightharpoonup> constraint"
  cs_y2 :: "nat \<rightharpoonup> constraint"

text \<open>
  \<open>A = K_X[0, :3] - e * K_X[2, :3]; b = e * K_X[2, 3] - K_X[0, 3]\<close> for an x edge,
  the same with row 1 for a y edge.
\<close>

definition x_edge_constraint :: "mat \<Rightarrow> real \<Rightarrow> constraint" where
  "x_edge_constraint K_X e =
     \<lparr>con_A = vsub (take 3 (K_X ! 0)) (smul e (take 3 (K_X ! 2))),
      con_b = e * K_X ! 2 ! 3 - K_X ! 0 ! 3\<rparr>"

definition y_edge_constraint :: "mat \<Rightarrow> real \<Rightarrow> constraint" where
  "y_edge_constraint K_X e =
     \<lparr>con_A = vsub (take 3 (K_X ! 1)) (smul e (take 3 (K_X ! 2))),
      con_b = e * K_X ! 2 ! 3 - K_X ! 1 ! 3\<rparr>"

text \<open>
  The two loops over the corner indices. The state of a loop is the matrix \<open>X\<close>, which
  the body updates in place, and the dictionary.
\<close>

definition bottom_body ::
  "mat \<Rightarrow> mat \<Rightarrow> real \<Rightarrow> real \<Rightarrow> real \<Rightarrow> mat \<times> constrains_dict \<Rightarrow> nat \<Rightarrow> mat \<times> constrains_dict" where
  "bottom_body K corners x1 y1 x2 st i =
     (let X = assign_col3 (fst st) (corners ! i);
          K_X = matmul K X;
          cs = snd st
      in (X, cs\<lparr>cs_x1 := (cs_x1 cs)(i \<mapsto> x_edge_constraint K_X x1),
                cs_x2 := (cs_x2 cs)(i \<mapsto> x_edge_constraint K_X x2),
                cs_y1 := (cs_y1 cs)(i \<mapsto> y_edge_constraint K_X y1)\<rparr>))"

definition top_body ::
  "mat \<Rightarrow> mat \<Rightarrow> real \<Rightarrow> mat \<times> constrains_dict \<Rightarrow> nat \<Rightarrow> mat \<times> constrains_dict" where
  "top_body K corners y2 st i =
     (let X = assign_col3 (fst st) (corners ! i);
          K_X = matmul K X;
          cs = snd st
      in (X, cs\<lparr>cs_y2 := (cs_y2 cs)(i \<mapsto> y_edge_constraint K_X y2)\<rparr>))"

definition build_constrains :: "mat \<Rightarrow> mat \<Rightarrow> real \<Rightarrow> real \<Rightarrow> real \<Rightarrow> real \<Rightarrow> constrains_dict" where
  "build_constrains K corners x1 y1 x2 y2 =
     (let st0 = (eye 4, \<lparr>cs_x1 = Map.empty, cs_x2 = Map.empty,
                         cs_y1 = Map.empty, cs_y2 = Map.empty\<rparr>);
          st1 = foldl (bottom_body K corners x1 y1 x2) st0 [4, 5, 6, 7];
          st2 = foldl (top_body K corners y2) st1 [0, 1, 2, 3]
      in snd st2)"

subsection \<open>Correspondence search\<close>

text \<open>
  The table \<open>crp\<close>: one dictionary per hypothesis, from the edge kind to the list of
  candidate corner indices.
\<close>

record correspondence =
  cr_x1 :: "nat list"
  cr_x2 :: "nat list"
  cr_y1 :: "nat list"
  cr_y2 :: "nat list"

definition crp :: "correspondence list" where
  "crp = [\<lparr>cr_x1 = [6, 7], cr_x2 = [4], cr_y1 = [5, 7], cr_y2 = [3]\<rparr>,
          \<lparr>cr_x1 = [5, 6], cr_x2 = [7], cr_y1 = [4, 6], cr_y2 = [2]\<rparr>,
          \<lparr>cr_x1 = [4, 5], cr_x2 = [6], cr_y1 = [7, 5], cr_y2 = [1]\<rparr>,
          \<lparr>cr_x1 = [7, 4], cr_x2 = [5], cr_y1 = [6, 4], cr_y2 = [0]\<rparr>]"

text \<open>
  The residual \<open>error_t\<close> and the variable \<open>error\<close> are float32 scalars: a number,
  \<open>+inf\<close> (an overflow, and the initial \<open>float('inf')\<close>) or NaN; a norm is never
  negative. The comparison \<open><\<close> is the one of IEEE 754: false when an operand is NaN,
  and \<open>+inf\<close> is below nothing. \<open>trans\<close> is unbound until the first assignment.
\<close>

datatype float_value = Number real | PosInfinity | NaN

fun float_less :: "float_value \<Rightarrow> float_value \<Rightarrow> bool" where
  "float_less (Number a) (Number b) = (a < b)"
| "float_less (Number a) PosInfinity = True"
| "float_less (Number a) NaN = False"
| "float_less PosInfinity y = False"
| "float_less NaN y = False"

text \<open>
  \<open>residual_norm A b t\<close> stands for the float32 evaluation of
  \<open>torch.norm(torch.matmul(A, t) - b)\<close>, and \<open>pinverse\<close> for \<open>torch.pinverse\<close>:
  functions of the library. The development holds for every function in their place.
\<close>

type_synonym norm_fn = "mat \<Rightarrow> vec \<Rightarrow> vec \<Rightarrow> float_value"

record search_state =
  st_A :: mat
  st_b :: vec
  st_error :: float_value
  st_trans :: "vec option"

text \<open>A Python \<open>for\<close> loop whose body may raise: the first error ends the loop.\<close>

fun for_loop :: "('s \<Rightarrow> 'i \<Rightarrow> py_error + 's) \<Rightarrow> 'i list \<Rightarrow> 's \<Rightarrow> py_error + 's" where
  "for_loop body [] s = Inr s"
| "for_loop body (i # is) s = (case body s i of Inl e \<Rightarrow> Inl e | Inr s' \<Rightarrow> for_loop body is s')"

text \<open>\<open>d[k]\<close> on a dictionary raises KeyError on a missing key.\<close>

definition lookup :: "(nat \<rightharpoonup> constraint) \<Rightarrow> nat \<Rightarrow> py_error + constraint" where
  "lookup d k = (case d k of None \<Rightarrow> Inl KeyError | Some c \<Rightarrow> Inr c)"

text \<open>\<open>A[k] = c['A']; b[k] = c['b']\<close>, in place.\<close>

definition set_row :: "nat \<Rightarrow> constraint \<Rightarrow> search_state \<Rightarrow> search_state" where
  "set_row k c s = s\<lparr>st_A := (st_A s)[k := con_A c], st_b := (st_b s)[k := con_b c]\<rparr>"

text \<open>The body of the innermost loop after the rows are set.\<close>

definition solve_step :: "(mat \<Rightarrow> mat) \<Rightarrow> norm_fn \<Rightarrow> search_state \<Rightarrow> search_state" where
  "solve_step pinverse residual_norm s =
     (let trans_t = matvec (pinverse (st_A s)) (st_b s);
          error_t = residual_norm (st_A s) (st_b s) trans_t
      in if float_less error_t (st_error s)
         then s\<lparr>st_trans := Some trans_t, st_error := error_t\<rparr>
         else s)"

definition loop_y2 ::
  "(mat \<Rightarrow> mat) \<Rightarrow> norm_fn \<Rightarrow> constrains_dict \<Rightarrow> correspondence \<Rightarrow> search_state
     \<Rightarrow> py_error + search_state" where
  "loop_y2 pinverse residual_norm cs cr =
     for_loop (\<lambda>s y_2. case lookup (cs_y2 cs) y_2 of Inl e \<Rightarrow> Inl e
                        | Inr c \<Rightarrow> Inr (solve_step pinverse residual_norm (set_row 3 c s)))
       (cr_y2 cr)"

definition loop_y1 ::
  "(mat \<Rightarrow> mat) \<Rightarrow> norm_fn \<Rightarrow> constrains_dict \<Rightarrow> correspondence \<Rightarrow> search_state
     \<Rightarrow> py_error + search_state" where
  "loop_y1 pinverse residual_norm cs cr =
     for_loop (\<lambda>s y_1. case lookup (cs_y1 cs) y_1 of Inl e \<Rightarrow> Inl e
                        | Inr c \<Rightarrow> loop_y2 pinverse residual_norm cs cr (set_row 2 c s))
       (cr_y1 cr)"

definition loop_x2 ::
  "(mat \<Rightarrow> mat) \<Rightarrow> norm_fn \<Rightarrow> constrains_dict \<Rightarrow> correspondence \<Rightarrow> search_state
     \<Rightarrow> py_error + search_state" where
  "loop_x2 pinverse residual_norm cs cr =
     for_loop (\<lambda>s x_2. case lookup (cs_x2 cs) x_2 of Inl e \<Rightarrow> Inl e
                        | Inr c \<Rightarrow> loop_y1 pinverse residual_norm cs cr (set_row 1 c s))
       (cr_x2 cr)"

definition loop_x1 ::
  "(mat \<Rightarrow> mat) \<Rightarrow> norm_fn \<Rightarrow> constrains_dict \<Rightarrow> correspondence \<Rightarrow> search_state
     \<Rightarrow> py_error + search_state" where
  "loop_x1 pinverse residual_norm cs cr =
     for_loop (\<lambda>s x_1. case lookup (cs_x1 cs) x_1 of Inl e \<Rightarrow> Inl e
                        | Inr c \<Rightarrow> loop_x2 pinverse residual_norm cs cr (set_row 0 c s))
       (cr_x1 cr)"

definition search_init :: search_state where
  "search_init = \<lparr>st_A = zeros2 4 3, st_b = replicate 4 0, st_error = PosInfinity,
                   st_trans = None\<rparr>"

definition search ::
  "(mat \<Rightarrow> mat) \<Rightarrow> norm_fn \<Rightarrow> constrains_dict \<Rightarrow> py_error + search_state" where
  "search pinverse residual_norm cs =
     for_loop (\<lambda>s i. loop_x1 pinverse residual_norm cs (crp ! i) s) [0..<4] search_init"

subsection \<open>The function\<close>

text \<open>
  \<open>calib\<close> is a dictionary from names to matrices. Unpacking \<open>bbox2D\<close> into four
  names raises ValueError unless it has four entries; returning the unbound \<open>trans\<close>
  raises UnboundLocalError. The shapes of the tensors are those of the docstring and of
  KITTI (\<open>corners\<close> 8 by 3, \<open>P2\<close> 3 by 4, \<open>R0_rect\<close> 3 by 3). On tensors of other
  shapes torch raises IndexError or RuntimeError, or broadcasts; that is not modelled, and
  the definitions stand for the function on the documented shapes only.
\<close>

definition return_trans :: "py_error + search_state \<Rightarrow> py_error + vec" where
  "return_trans r =
     (case r of
        Inl e \<Rightarrow> Inl e
      | Inr s \<Rightarrow> (case st_trans s of None \<Rightarrow> Inl UnboundLocalError | Some t \<Rightarrow> Inr t))"

definition solve_core ::
  "(mat \<Rightarrow> mat) \<Rightarrow> norm_fn \<Rightarrow> real \<Rightarrow> real \<Rightarrow> real \<Rightarrow> real \<Rightarrow> mat \<Rightarrow> real \<Rightarrow> mat \<Rightarrow> mat
     \<Rightarrow> py_error + vec" where
  "solve_core pinverse residual_norm x1 y1 x2 y2 corners theta_l P2 R0 =
     (let K = projection_K P2 R0;
          ry = global_ry P2 x1 x2 theta_l;
          corners' = rotated_corners corners ry;
          cs = build_constrains K corners' x1 y1 x2 y2
      in return_trans (search pinverse residual_norm cs))"

definition solve_3d_bbox_single ::
  "(mat \<Rightarrow> mat) \<Rightarrow> norm_fn \<Rightarrow> vec \<Rightarrow> mat \<Rightarrow> real \<Rightarrow> (string \<rightharpoonup> mat) \<Rightarrow> py_error + vec" where
  "solve_3d_bbox_single pinverse residual_norm bbox2D corners theta_l calib =
     (case bbox2D of
        [x1, y1, x2, y2] \<Rightarrow>
          (case calib ''P2'' of
             None \<Rightarrow> Inl KeyError
           | Some P2 \<Rightarrow>
               (case calib ''R0_rect'' of
                  None \<Rightarrow> Inl KeyError
                | Some R0 \<Rightarrow>
                    solve_core pinverse residual_norm x1 y1 x2 y2 corners theta_l P2 R0))
      | _ \<Rightarrow> Inl ValueError)"

subsection \<open>A pseudoinverse for concrete inputs\<close>

text \<open>
  For a matrix \<open>A\<close> with three independent columns the Moore-Penrose pseudoinverse is
  \<open>(A\<^sup>T A)\<^sup>-\<^sup>1 A\<^sup>T\<close>. It instantiates \<open>pinverse\<close> where a theorem is applied to
  concrete numbers.
\<close>

definition transpose_mat :: "mat \<Rightarrow> mat" where
  "transpose_mat M = map (\<lambda>j. column j M) [0..<dim1 M]"

definition det33 :: "mat \<Rightarrow> real" where
  "det33 M =
     M ! 0 ! 0 * (M ! 1 ! 1 * M ! 2 ! 2 - M ! 1 ! 2 * M ! 2 ! 1)
     - M ! 0 ! 1 * (M ! 1 ! 0 * M ! 2 ! 2 - M ! 1 ! 2 * M ! 2 ! 0)
     + M ! 0 ! 2 * (M ! 1 ! 0 * M ! 2 ! 1 - M ! 1 ! 1 * M ! 2 ! 0)"

definition inverse33 :: "mat \<Rightarrow> mat" where
  "inverse33 M =
     map (smul (1 / det33 M))
       [[M ! 1 ! 1 * M ! 2 ! 2 - M ! 1 ! 2 * M ! 2 ! 1,
         M ! 0 ! 2 * M ! 2 ! 1 - M ! 0 ! 1 * M ! 2 ! 2,
         M ! 0 ! 1 * M ! 1 ! 2 - M ! 0 ! 2 * M ! 1 ! 1],
        [M ! 1 ! 2 * M ! 2 ! 0 - M ! 1 ! 0 * M ! 2 ! 2,
         M ! 0 ! 0 * M ! 2 ! 2 - M ! 0 ! 2 * M ! 2 ! 0,
         M ! 0 ! 2 * M ! 1 ! 0 - M ! 0 ! 0 * M ! 1 ! 2],
        [M ! 1 ! 0 * M ! 2 ! 1 - M ! 1 ! 1 * M ! 2 ! 0,
         M ! 0 ! 1 * M ! 2 ! 0 - M ! 0 ! 0 * M ! 2 ! 1,
         M ! 0 ! 0 * M ! 1 ! 1 - M ! 0 ! 1 * M ! 1 ! 0]]"

definition pinverse_full_rank :: "mat \<Rightarrow> mat" where
  "pinverse_full_rank A =
     matmul (inverse33 (matmul (transpose_mat A) A)) (transpose_mat A)"

section \<open>Specification-side definitions\<close>


text \<open>
  The projection of corner \<open>i\<close>: \<open>K\<close> times the homogeneous transform that translates by
  the corner.
\<close>

definition K_X_of :: "mat \<Rightarrow> mat \<Rightarrow> nat \<Rightarrow> mat" where
  "K_X_of K corners i = matmul K (assign_col3 (eye 4) (corners ! i))"

text \<open>
  The systems of one hypothesis, in the order of the nested loops (\<open>x_1\<close> outermost,
  \<open>y_2\<close> innermost), and the systems of all hypotheses in the order of \<open>crp\<close>.
\<close>

definition systems_of :: "correspondence \<Rightarrow> (nat \<times> nat \<times> nat \<times> nat) list" where
  "systems_of cr =
     [(x_1, x_2, y_1, y_2). x_1 \<leftarrow> cr_x1 cr, x_2 \<leftarrow> cr_x2 cr, y_1 \<leftarrow> cr_y1 cr, y_2 \<leftarrow> cr_y2 cr]"

definition enumeration :: "(nat \<times> nat \<times> nat \<times> nat) list" where
  "enumeration = concat (map systems_of crp)"

text \<open>The matrix \<open>A\<close> and the right-hand side \<open>b\<close> of the system of four corners.\<close>

definition system_A ::
  "mat \<Rightarrow> mat \<Rightarrow> real \<Rightarrow> real \<Rightarrow> real \<Rightarrow> real \<Rightarrow> nat \<times> nat \<times> nat \<times> nat \<Rightarrow> mat" where
  "system_A K corners x1 y1 x2 y2 sys =
     (case sys of (a, b, c, d) \<Rightarrow>
        [con_A (x_edge_constraint (K_X_of K corners a) x1),
         con_A (x_edge_constraint (K_X_of K corners b) x2),
         con_A (y_edge_constraint (K_X_of K corners c) y1),
         con_A (y_edge_constraint (K_X_of K corners d) y2)])"

definition system_b ::
  "mat \<Rightarrow> mat \<Rightarrow> real \<Rightarrow> real \<Rightarrow> real \<Rightarrow> real \<Rightarrow> nat \<times> nat \<times> nat \<times> nat \<Rightarrow> vec" where
  "system_b K corners x1 y1 x2 y2 sys =
     (case sys of (a, b, c, d) \<Rightarrow>
        [con_b (x_edge_constraint (K_X_of K corners a) x1),
         con_b (x_edge_constraint (K_X_of K corners b) x2),
         con_b (y_edge_constraint (K_X_of K corners c) y1),
         con_b (y_edge_constraint (K_X_of K corners d) y2)])"

text \<open>One solve: the rows of a system are loaded, then the loop body runs.\<close>

definition solve_system ::
  "(mat \<Rightarrow> mat) \<Rightarrow> norm_fn \<Rightarrow> mat \<Rightarrow> vec \<Rightarrow> search_state \<Rightarrow> search_state" where
  "solve_system pinverse residual_norm A b s =
     solve_step pinverse residual_norm (s\<lparr>st_A := A, st_b := b\<rparr>)"

text \<open>\<open>t = pinv(A) b\<close> and the residual \<open>\<parallel>A t - b\<parallel>\<close> in exact arithmetic.\<close>

definition solution :: "(mat \<Rightarrow> mat) \<Rightarrow> mat \<Rightarrow> vec \<Rightarrow> vec" where
  "solution pinverse A b = matvec (pinverse A) b"

definition residual :: "mat \<Rightarrow> vec \<Rightarrow> vec \<Rightarrow> real" where
  "residual A b t = norm2 (vsub (matvec A t) b)"

text \<open>The residual function of exact arithmetic: always a number.\<close>

definition exact_residual :: norm_fn where
  "exact_residual A b t = Number (residual A b t)"

text \<open>
  Candidate \<open>k\<close> of a call: the solution of system \<open>k\<close> of the enumeration, its exact
  residual, and the residual that \<open>residual_norm\<close> computes for it.
\<close>

definition cand_t ::
  "(mat \<Rightarrow> mat) \<Rightarrow> mat \<Rightarrow> mat \<Rightarrow> real \<Rightarrow> real \<Rightarrow> real \<Rightarrow> real \<Rightarrow> nat \<Rightarrow> vec" where
  "cand_t pinverse K corners x1 y1 x2 y2 k =
     solution pinverse (system_A K corners x1 y1 x2 y2 (enumeration ! k))
       (system_b K corners x1 y1 x2 y2 (enumeration ! k))"

definition cand_r ::
  "(mat \<Rightarrow> mat) \<Rightarrow> mat \<Rightarrow> mat \<Rightarrow> real \<Rightarrow> real \<Rightarrow> real \<Rightarrow> real \<Rightarrow> nat \<Rightarrow> real" where
  "cand_r pinverse K corners x1 y1 x2 y2 k =
     residual (system_A K corners x1 y1 x2 y2 (enumeration ! k))
       (system_b K corners x1 y1 x2 y2 (enumeration ! k))
       (cand_t pinverse K corners x1 y1 x2 y2 k)"

definition cand_e ::
  "norm_fn \<Rightarrow> (mat \<Rightarrow> mat) \<Rightarrow> mat \<Rightarrow> mat \<Rightarrow> real \<Rightarrow> real \<Rightarrow> real \<Rightarrow> real \<Rightarrow> nat \<Rightarrow> float_value" where
  "cand_e residual_norm pinverse K corners x1 y1 x2 y2 k =
     residual_norm (system_A K corners x1 y1 x2 y2 (enumeration ! k))
       (system_b K corners x1 y1 x2 y2 (enumeration ! k))
       (cand_t pinverse K corners x1 y1 x2 y2 k)"

text \<open>The selection the loop performs on \<open>error\<close> and \<open>trans\<close>.\<close>

fun keep_best ::
  "float_value \<times> vec option \<Rightarrow> vec \<times> float_value \<Rightarrow> float_value \<times> vec option" where
  "keep_best (err, tr) (t, e) = (if float_less e err then (e, Some t) else (err, tr))"

definition outcome :: "search_state \<Rightarrow> float_value \<times> vec option" where
  "outcome s = (st_error s, st_trans s)"

text \<open>The inputs of the documented shapes.\<close>

definition documented_shapes :: "mat \<Rightarrow> mat \<Rightarrow> mat \<Rightarrow> bool" where
  "documented_shapes corners P2 R0 =
     (is_matrix 8 3 corners \<and> is_matrix 3 4 P2 \<and> is_matrix 3 3 R0)"

text \<open>The calibration of the scenario of the specification (section 8).\<close>

definition calib_identity :: "string \<rightharpoonup> mat" where
  "calib_identity =
     [''P2'' \<mapsto> [[1, 0, 0, 0], [0, 1, 0, 0], [0, 0, 1, 0]],
      ''R0_rect'' \<mapsto> [[1, 0, 0], [0, 1, 0], [0, 0, 1]]]"

section \<open>Evaluation lemmas\<close>

lemma upt_3: "[0..<3] = [0, 1, 2]"
  by (simp add: upt_rec)

lemma upt_4: "[0..<4] = [0, 1, 2, 3]"
  by (simp add: upt_rec)

lemma upt_8: "[0..<8] = [0, 1, 2, 3, 4, 5, 6, 7]"
  by (simp add: upt_rec)

lemma eye_4: "eye 4 = [[1, 0, 0, 0], [0, 1, 0, 0], [0, 0, 1, 0], [0, 0, 0, 1]]"
  by (simp add: eye_def upt_4)

lemma assign_col3_eye:
  "assign_col3 (eye 4) v = [[1, 0, 0, v ! 0], [0, 1, 0, v ! 1], [0, 0, 1, v ! 2], [0, 0, 0, 1]]"
  by (simp add: eye_4 assign_col3_def dim1_def upt_4 numeral_2_eq_2)

lemma assign_col3_twice: "assign_col3 (assign_col3 (eye 4) u) v = assign_col3 (eye 4) v"
  by (simp add: assign_col3_eye) (simp add: assign_col3_def dim1_def upt_4 numeral_2_eq_2)

lemma search_init_eq:
  "search_init = \<lparr>st_A = [[0, 0, 0], [0, 0, 0], [0, 0, 0], [0, 0, 0]], st_b = [0, 0, 0, 0],
                   st_error = PosInfinity, st_trans = None\<rparr>"
  by (simp add: search_init_def zeros2_def numeral_eq_Suc)

lemma enumeration_eq:
  "enumeration =
     [(6, 4, 5, 3), (6, 4, 7, 3), (7, 4, 5, 3), (7, 4, 7, 3),
      (5, 7, 4, 2), (5, 7, 6, 2), (6, 7, 4, 2), (6, 7, 6, 2),
      (4, 6, 7, 1), (4, 6, 5, 1), (5, 6, 7, 1), (5, 6, 5, 1),
      (7, 5, 6, 0), (7, 5, 4, 0), (4, 5, 6, 0), (4, 5, 4, 0)]"
  by (simp add: enumeration_def systems_of_def crp_def)

lemma length_enumeration: "length enumeration = 16"
  by (simp add: enumeration_eq)

section \<open>The corner generator in closed form\<close>

lemma dimensions_to_corners_closed:
  assumes "list_all (\<lambda>r. 3 \<le> length r) dims"
  shows "dimensions_to_corners dims =
           Inr (map (\<lambda>r. corner_table (r ! 0) (r ! 1) (r ! 2)) dims)"
proof -
  have "permute_210
          (let h = column 0 dims; w = column 1 dims; l = column 2 dims;
               zeros = replicate (length dims) 0;
               corner_x = [vdiv l 2, vdiv (vneg l) 2, vdiv (vneg l) 2, vdiv l 2,
                           vdiv l 2, vdiv (vneg l) 2, vdiv (vneg l) 2, vdiv l 2];
               corner_y = [zeros, zeros, zeros, zeros, vneg h, vneg h, vneg h, vneg h];
               corner_z = [vdiv w 2, vdiv w 2, vdiv (vneg w) 2, vdiv (vneg w) 2,
                           vdiv w 2, vdiv w 2, vdiv (vneg w) 2, vdiv (vneg w) 2]
           in [corner_x, corner_y, corner_z]) =
        map (\<lambda>r. corner_table (r ! 0) (r ! 1) (r ! 2)) dims"
    by (rule nth_equalityI)
       (simp_all add: Let_def permute_210_def dim1_def dim2_def column_def vneg_def vdiv_def
          corner_table_def upt_3 upt_8)
  then show ?thesis
    using assms by (simp add: dimensions_to_corners_def Let_def)
qed

lemma rows_of_three: "list_all (\<lambda>r. length r = 3) dims \<Longrightarrow> list_all (\<lambda>r. 3 \<le> length r) dims"
  by (induction dims) simp_all

lemma is_matrix_corner_table: "is_matrix 8 3 (corner_table h w l)"
  by (simp add: is_matrix_def corner_table_def)

section \<open>The constraint loops in closed form\<close>

lemma bottom_body_first:
  "bottom_body K corners x1 y1 x2 (eye 4, cs) i =
     (assign_col3 (eye 4) (corners ! i),
      cs\<lparr>cs_x1 := (cs_x1 cs)(i \<mapsto> x_edge_constraint (K_X_of K corners i) x1),
         cs_x2 := (cs_x2 cs)(i \<mapsto> x_edge_constraint (K_X_of K corners i) x2),
         cs_y1 := (cs_y1 cs)(i \<mapsto> y_edge_constraint (K_X_of K corners i) y1)\<rparr>)"
  by (simp add: bottom_body_def Let_def K_X_of_def)

lemma bottom_body_next:
  "bottom_body K corners x1 y1 x2 (assign_col3 (eye 4) u, cs) i =
     (assign_col3 (eye 4) (corners ! i),
      cs\<lparr>cs_x1 := (cs_x1 cs)(i \<mapsto> x_edge_constraint (K_X_of K corners i) x1),
         cs_x2 := (cs_x2 cs)(i \<mapsto> x_edge_constraint (K_X_of K corners i) x2),
         cs_y1 := (cs_y1 cs)(i \<mapsto> y_edge_constraint (K_X_of K corners i) y1)\<rparr>)"
  by (simp add: bottom_body_def Let_def assign_col3_twice K_X_of_def)

lemma top_body_next:
  "top_body K corners y2 (assign_col3 (eye 4) u, cs) i =
     (assign_col3 (eye 4) (corners ! i),
      cs\<lparr>cs_y2 := (cs_y2 cs)(i \<mapsto> y_edge_constraint (K_X_of K corners i) y2)\<rparr>)"
  by (simp add: top_body_def Let_def assign_col3_twice K_X_of_def)

lemma build_constrains_closed:
  "build_constrains K corners x1 y1 x2 y2 =
     \<lparr>cs_x1 = (\<lambda>i. if i \<in> {4, 5, 6, 7}
                     then Some (x_edge_constraint (K_X_of K corners i) x1) else None),
      cs_x2 = (\<lambda>i. if i \<in> {4, 5, 6, 7}
                     then Some (x_edge_constraint (K_X_of K corners i) x2) else None),
      cs_y1 = (\<lambda>i. if i \<in> {4, 5, 6, 7}
                     then Some (y_edge_constraint (K_X_of K corners i) y1) else None),
      cs_y2 = (\<lambda>i. if i \<in> {0, 1, 2, 3}
                     then Some (y_edge_constraint (K_X_of K corners i) y2) else None)\<rparr>"
  by (simp add: build_constrains_def Let_def bottom_body_first bottom_body_next top_body_next
      fun_eq_iff)

section \<open>The search as a selection over the enumeration\<close>

lemma st_A_solve_step: "st_A (solve_step p rn s) = st_A s"
  by (simp add: solve_step_def Let_def)

lemma st_b_solve_step: "st_b (solve_step p rn s) = st_b s"
  by (simp add: solve_step_def Let_def)

lemma search_unrolled:
  "search pinverse residual_norm (build_constrains K corners x1 y1 x2 y2) =
     Inr (foldl (\<lambda>s sys. solve_system pinverse residual_norm
                            (system_A K corners x1 y1 x2 y2 sys)
                            (system_b K corners x1 y1 x2 y2 sys) s)
            search_init enumeration)"
  by (simp add: search_def upt_4 crp_def loop_x1_def loop_x2_def loop_y1_def loop_y2_def
      lookup_def build_constrains_closed enumeration_eq system_A_def system_b_def
      solve_system_def set_row_def search_init_eq st_A_solve_step st_b_solve_step)

lemma outcome_solve_system:
  "outcome (solve_system pinverse residual_norm A b s) =
     keep_best (outcome s) (solution pinverse A b, residual_norm A b (solution pinverse A b))"
  by (simp add: outcome_def solve_system_def solve_step_def solution_def Let_def)

lemma outcome_foldl:
  "outcome (foldl (\<lambda>s sys. solve_system pinverse residual_norm (fA sys) (fb sys) s) s0 syss) =
     foldl keep_best (outcome s0)
       (map (\<lambda>sys. (solution pinverse (fA sys) (fb sys),
                     residual_norm (fA sys) (fb sys) (solution pinverse (fA sys) (fb sys)))) syss)"
  by (induction syss arbitrary: s0) (simp_all add: outcome_solve_system)

text \<open>
  The selection over a list of candidates: either no residual is a number and nothing was
  kept, or the first candidate of least residual among the numbers was kept.
\<close>

lemma keep_best_selects:
  "(foldl keep_best (PosInfinity, None) cands = (PosInfinity, None)
      \<and> (\<forall>j<length cands. \<forall>e. snd (cands ! j) \<noteq> Number e))
   \<or> (\<exists>k<length cands. \<exists>e.
         snd (cands ! k) = Number e
       \<and> foldl keep_best (PosInfinity, None) cands = (Number e, Some (fst (cands ! k)))
       \<and> (\<forall>j<length cands. \<forall>e'. snd (cands ! j) = Number e' \<longrightarrow> e \<le> e')
       \<and> (\<forall>j<k. \<forall>e'. snd (cands ! j) = Number e' \<longrightarrow> e < e'))"
proof (induction cands rule: rev_induct)
  case Nil
  show ?case by simp
next
  case (snoc c cs)
  obtain t f where c: "c = (t, f)" by (cases c)
  from snoc consider
    (none) "foldl keep_best (PosInfinity, None) cs = (PosInfinity, None)"
      "\<forall>j<length cs. \<forall>e. snd (cs ! j) \<noteq> Number e"
    | (some) k e where "k < length cs" "snd (cs ! k) = Number e"
      "foldl keep_best (PosInfinity, None) cs = (Number e, Some (fst (cs ! k)))"
      "\<forall>j<length cs. \<forall>e'. snd (cs ! j) = Number e' \<longrightarrow> e \<le> e'"
      "\<forall>j<k. \<forall>e'. snd (cs ! j) = Number e' \<longrightarrow> e < e'"
    by blast
  then show ?case
  proof cases
    case none
    show ?thesis
    proof (cases "\<exists>e'. f = Number e'")
      case True
      then obtain e' where f: "f = Number e'" by blast
      have "foldl keep_best (PosInfinity, None) (cs @ [c]) = (Number e', Some t)"
        using none(1) c f by simp
      moreover have "\<forall>j<length (cs @ [c]). \<forall>e''. snd ((cs @ [c]) ! j) = Number e'' \<longrightarrow> e' \<le> e''"
        using none(2) c f by (auto simp: nth_append less_Suc_eq)
      moreover have "\<forall>j<length cs. \<forall>e''. snd ((cs @ [c]) ! j) = Number e'' \<longrightarrow> e' < e''"
        using none(2) by (auto simp: nth_append)
      ultimately have "\<exists>k<length (cs @ [c]). \<exists>e.
           snd ((cs @ [c]) ! k) = Number e
         \<and> foldl keep_best (PosInfinity, None) (cs @ [c]) = (Number e, Some (fst ((cs @ [c]) ! k)))
         \<and> (\<forall>j<length (cs @ [c]). \<forall>e'. snd ((cs @ [c]) ! j) = Number e' \<longrightarrow> e \<le> e')
         \<and> (\<forall>j<k. \<forall>e'. snd ((cs @ [c]) ! j) = Number e' \<longrightarrow> e < e')"
        using c f by (intro exI[of _ "length cs"] conjI exI[of _ e']) simp_all
      then show ?thesis ..
    next
      case False
      then have less: "\<not> float_less f PosInfinity"
        by (cases f) simp_all
      have "foldl keep_best (PosInfinity, None) (cs @ [c]) = (PosInfinity, None)"
        using none(1) c less by simp
      moreover have "\<forall>j<length (cs @ [c]). \<forall>e. snd ((cs @ [c]) ! j) \<noteq> Number e"
        using none(2) c False by (auto simp: nth_append less_Suc_eq)
      ultimately show ?thesis by blast
    qed
  next
    case some
    show ?thesis
    proof (cases "float_less f (Number e)")
      case True
      then obtain e' where f: "f = Number e'" and lt: "e' < e"
        by (cases f) simp_all
      have "foldl keep_best (PosInfinity, None) (cs @ [c]) = (Number e', Some t)"
        using some(3) c f lt by simp
      moreover have "\<forall>j<length (cs @ [c]). \<forall>e''. snd ((cs @ [c]) ! j) = Number e'' \<longrightarrow> e' \<le> e''"
        using some(4) c f lt by (fastforce simp: nth_append less_Suc_eq)
      moreover have "\<forall>j<length cs. \<forall>e''. snd ((cs @ [c]) ! j) = Number e'' \<longrightarrow> e' < e''"
        using some(4) lt by (fastforce simp: nth_append)
      ultimately have "\<exists>k<length (cs @ [c]). \<exists>e.
           snd ((cs @ [c]) ! k) = Number e
         \<and> foldl keep_best (PosInfinity, None) (cs @ [c]) = (Number e, Some (fst ((cs @ [c]) ! k)))
         \<and> (\<forall>j<length (cs @ [c]). \<forall>e'. snd ((cs @ [c]) ! j) = Number e' \<longrightarrow> e \<le> e')
         \<and> (\<forall>j<k. \<forall>e'. snd ((cs @ [c]) ! j) = Number e' \<longrightarrow> e < e')"
        using c f by (intro exI[of _ "length cs"] conjI exI[of _ e']) simp_all
      then show ?thesis ..
    next
      case False
      have "foldl keep_best (PosInfinity, None) (cs @ [c]) = (Number e, Some (fst (cs ! k)))"
        using some(3) c False by simp
      moreover have "\<forall>j<length (cs @ [c]). \<forall>e'. snd ((cs @ [c]) ! j) = Number e' \<longrightarrow> e \<le> e'"
        using some(4) c False by (auto simp: nth_append less_Suc_eq)
      moreover have "\<forall>j<k. \<forall>e'. snd ((cs @ [c]) ! j) = Number e' \<longrightarrow> e < e'"
        using some(1,5) by (auto simp: nth_append)
      ultimately have "\<exists>k<length (cs @ [c]). \<exists>e.
           snd ((cs @ [c]) ! k) = Number e
         \<and> foldl keep_best (PosInfinity, None) (cs @ [c]) = (Number e, Some (fst ((cs @ [c]) ! k)))
         \<and> (\<forall>j<length (cs @ [c]). \<forall>e'. snd ((cs @ [c]) ! j) = Number e' \<longrightarrow> e \<le> e')
         \<and> (\<forall>j<k. \<forall>e'. snd ((cs @ [c]) ! j) = Number e' \<longrightarrow> e < e')"
        using some(1,2) by (intro exI[of _ k] conjI exI[of _ e]) (simp_all add: nth_append)
      then show ?thesis ..
    qed
  qed
qed

text \<open>
  The call on unpacked inputs, for any residual function: if no computed residual is a
  number, the \<open>return\<close> finds \<open>trans\<close> unbound; otherwise the call returns the solution
  of the first system whose computed residual is least among the numbers.
\<close>

lemma solve_core_selects:
  assumes K: "K = projection_K P2 R0"
    and rc: "rc = rotated_corners corners (global_ry P2 x1 x2 theta_l)"
  shows "(solve_core pinverse residual_norm x1 y1 x2 y2 corners theta_l P2 R0 = Inl UnboundLocalError
            \<and> (\<forall>j<16. \<forall>e. cand_e residual_norm pinverse K rc x1 y1 x2 y2 j \<noteq> Number e))
       \<or> (\<exists>k<16. \<exists>e.
             cand_e residual_norm pinverse K rc x1 y1 x2 y2 k = Number e
           \<and> solve_core pinverse residual_norm x1 y1 x2 y2 corners theta_l P2 R0 =
               Inr (cand_t pinverse K rc x1 y1 x2 y2 k)
           \<and> (\<forall>j<16. \<forall>e'. cand_e residual_norm pinverse K rc x1 y1 x2 y2 j = Number e' \<longrightarrow> e \<le> e')
           \<and> (\<forall>j<k. \<forall>e'. cand_e residual_norm pinverse K rc x1 y1 x2 y2 j = Number e' \<longrightarrow> e < e'))"
proof -
  define cands where
    "cands = map (\<lambda>sys. (solution pinverse (system_A K rc x1 y1 x2 y2 sys)
                            (system_b K rc x1 y1 x2 y2 sys),
                          residual_norm (system_A K rc x1 y1 x2 y2 sys)
                            (system_b K rc x1 y1 x2 y2 sys)
                            (solution pinverse (system_A K rc x1 y1 x2 y2 sys)
                               (system_b K rc x1 y1 x2 y2 sys)))) enumeration"
  define final where
    "final = foldl (\<lambda>s sys. solve_system pinverse residual_norm (system_A K rc x1 y1 x2 y2 sys)
                              (system_b K rc x1 y1 x2 y2 sys) s) search_init enumeration"
  have len: "length cands = 16"
    by (simp add: cands_def length_enumeration)
  have nth: "cands ! j = (cand_t pinverse K rc x1 y1 x2 y2 j,
                          cand_e residual_norm pinverse K rc x1 y1 x2 y2 j)"
    if "j < 16" for j
    using that by (simp add: cands_def length_enumeration cand_t_def cand_e_def)
  have core: "solve_core pinverse residual_norm x1 y1 x2 y2 corners theta_l P2 R0 =
                return_trans (Inr final)"
    by (simp add: solve_core_def Let_def search_unrolled final_def K rc)
  have out: "outcome final = foldl keep_best (PosInfinity, None) cands"
    unfolding final_def cands_def by (simp add: outcome_foldl) (simp add: outcome_def search_init_def)
  from keep_best_selects[of cands] consider
    (none) "foldl keep_best (PosInfinity, None) cands = (PosInfinity, None)"
      "\<forall>j<16. \<forall>e. snd (cands ! j) \<noteq> Number e"
    | (some) k e where "k < 16" "snd (cands ! k) = Number e"
      "foldl keep_best (PosInfinity, None) cands = (Number e, Some (fst (cands ! k)))"
      "\<forall>j<16. \<forall>e'. snd (cands ! j) = Number e' \<longrightarrow> e \<le> e'"
      "\<forall>j<k. \<forall>e'. snd (cands ! j) = Number e' \<longrightarrow> e < e'"
    unfolding len by blast
  then show ?thesis
  proof cases
    case none
    have "st_trans final = None"
      using out none(1) by (simp add: outcome_def)
    then have "solve_core pinverse residual_norm x1 y1 x2 y2 corners theta_l P2 R0 =
                 Inl UnboundLocalError"
      by (simp add: core return_trans_def)
    moreover have "\<forall>j<16. \<forall>e. cand_e residual_norm pinverse K rc x1 y1 x2 y2 j \<noteq> Number e"
      using none(2) nth by simp
    ultimately show ?thesis by blast
  next
    case some
    have "st_trans final = Some (cand_t pinverse K rc x1 y1 x2 y2 k)"
      using out some(1,3) nth by (simp add: outcome_def)
    then have "solve_core pinverse residual_norm x1 y1 x2 y2 corners theta_l P2 R0 =
                 Inr (cand_t pinverse K rc x1 y1 x2 y2 k)"
      by (simp add: core return_trans_def)
    moreover have "cand_e residual_norm pinverse K rc x1 y1 x2 y2 k = Number e"
      using some(1,2) nth by simp
    moreover have "\<forall>j<16. \<forall>e'. cand_e residual_norm pinverse K rc x1 y1 x2 y2 j = Number e' \<longrightarrow> e \<le> e'"
      using some(4) nth by simp
    moreover have "\<forall>j<k. \<forall>e'. cand_e residual_norm pinverse K rc x1 y1 x2 y2 j = Number e' \<longrightarrow> e < e'"
      using some(1,5) nth by simp
    ultimately show ?thesis
      using some(1) by blast
  qed
qed

text \<open>In exact arithmetic every residual is a number, so the first case never occurs.\<close>

lemma cand_e_exact:
  "cand_e exact_residual pinverse K rc x1 y1 x2 y2 k = Number (cand_r pinverse K rc x1 y1 x2 y2 k)"
  by (simp add: cand_e_def cand_r_def exact_residual_def)

lemma solve_core_selects_exact:
  assumes K: "K = projection_K P2 R0"
    and rc: "rc = rotated_corners corners (global_ry P2 x1 x2 theta_l)"
  shows "\<exists>k<16. solve_core pinverse exact_residual x1 y1 x2 y2 corners theta_l P2 R0 =
                  Inr (cand_t pinverse K rc x1 y1 x2 y2 k)
              \<and> (\<forall>j<16. cand_r pinverse K rc x1 y1 x2 y2 k \<le> cand_r pinverse K rc x1 y1 x2 y2 j)
              \<and> (\<forall>j<k. cand_r pinverse K rc x1 y1 x2 y2 k < cand_r pinverse K rc x1 y1 x2 y2 j)"
proof -
  have "\<exists>j::nat. j < 16"
    by (rule exI[of _ 0]) simp
  then show ?thesis
    using solve_core_selects[OF K rc, where residual_norm = exact_residual and pinverse = pinverse
        and ?y1.0 = y1 and ?y2.0 = y2]
    by (simp add: cand_e_exact) blast
qed


lemma length3E:
  assumes "length (v :: 'a list) = 3"
  obtains a b c where "v = [a, b, c]"
  using assms by (auto simp: length_Suc_conv numeral_3_eq_3)


section \<open>Claims about the corner generator\<close>

text \<open>
  Claim C5. For positive \<open>h\<close>, \<open>w\<close>, \<open>l\<close> in row \<open>n\<close> of the batch,
  \<open>dimensions_to_corners\<close> returns for that row the eight corners of the table of
  section 4.1 in the order 0 to 7: corners 0 to 3 have \<open>y = 0\<close>, corners 4 to 7 have
  \<open>y = -h\<close>, every corner has \<open>|x| = l/2\<close> and \<open>|z| = w/2\<close>, and the signs of \<open>x\<close>
  and \<open>z\<close> are \<open>+,-,-,+,+,-,-,+\<close> and \<open>+,+,-,-,+,+,-,-\<close>.
\<close>

theorem corners_follow_table:
  assumes "0 < h" and "0 < w" and "0 < l"
    and "list_all (\<lambda>r. length r = 3) dims" and "n < length dims" and "dims ! n = [h, w, l]"
  shows "\<exists>cs. dimensions_to_corners dims = Inr cs
           \<and> cs ! n = corner_table h w l
           \<and> length (cs ! n) = 8
           \<and> (\<forall>i\<in>{0, 1, 2, 3}. cs ! n ! i ! 1 = 0)
           \<and> (\<forall>i\<in>{4, 5, 6, 7}. cs ! n ! i ! 1 = - h)
           \<and> (\<forall>i<8. \<bar>cs ! n ! i ! 0\<bar> = l / 2 \<and> \<bar>cs ! n ! i ! 2\<bar> = w / 2)
           \<and> map (\<lambda>c. sgn (c ! 0)) (cs ! n) = [1, - 1, - 1, 1, 1, - 1, - 1, 1]
           \<and> map (\<lambda>c. sgn (c ! 2)) (cs ! n) = [1, 1, - 1, - 1, 1, 1, - 1, - 1]"
proof -
  let ?cs = "map (\<lambda>r. corner_table (r ! 0) (r ! 1) (r ! 2)) dims"
  have eq: "dimensions_to_corners dims = Inr ?cs"
    using assms(4) by (simp add: dimensions_to_corners_closed rows_of_three)
  have nth: "?cs ! n = corner_table h w l"
    using assms(5,6) by simp
  have abs: "\<forall>i<8. \<bar>corner_table h w l ! i ! 0\<bar> = l / 2 \<and> \<bar>corner_table h w l ! i ! 2\<bar> = w / 2"
    using assms(1-3) by (simp add: corner_table_def less_Suc_eq numeral_eq_Suc all_conj_distrib)
  have "length (corner_table h w l) = 8"
     and "\<forall>i\<in>{0, 1, 2, 3}. corner_table h w l ! i ! 1 = 0"
     and "\<forall>i\<in>{4, 5, 6, 7}. corner_table h w l ! i ! 1 = - h"
     and "map (\<lambda>c. sgn (c ! 0)) (corner_table h w l) = [1, - 1, - 1, 1, 1, - 1, - 1, 1]"
     and "map (\<lambda>c. sgn (c ! 2)) (corner_table h w l) = [1, 1, - 1, - 1, 1, 1, - 1, - 1]"
    using assms(1-3) by (simp_all add: corner_table_def)
  with eq nth abs show ?thesis
    by (intro exI[of _ ?cs]) (simp only: simp_thms)
qed

theorem corners_follow_table_witness:
  "\<exists>cs. dimensions_to_corners [[1, 2, 3], [4, 5, 6]] = Inr cs
      \<and> cs ! 1 = [[3, 0, 5 / 2], [- 3, 0, 5 / 2], [- 3, 0, - (5 / 2)], [3, 0, - (5 / 2)],
                  [3, - 4, 5 / 2], [- 3, - 4, 5 / 2], [- 3, - 4, - (5 / 2)], [3, - 4, - (5 / 2)]]
      \<and> cs ! 1 ! 6 ! 1 = - 4 \<and> \<bar>cs ! 1 ! 6 ! 0\<bar> = 3"
  using corners_follow_table[of 4 5 6 "[[1, 2, 3], [4, 5, 6]]" 1]
  by (auto simp: corner_table_def)

text \<open>
  Claim C8. For a batch of \<open>N\<close> rows \<open>[h, w, l]\<close>, \<open>dimensions_to_corners\<close> returns a
  tensor of shape \<open>N \<times> 8 \<times> 3\<close> whose slice \<open>i\<close> is the result of the call on the batch
  that holds row \<open>i\<close> alone.
\<close>

theorem batch_is_stack_of_singles:
  assumes "list_all (\<lambda>r. length r = 3) dims"
  shows "\<exists>cs. dimensions_to_corners dims = Inr cs
           \<and> length cs = length dims
           \<and> list_all (is_matrix 8 3) cs
           \<and> (\<forall>i<length dims. dimensions_to_corners [dims ! i] = Inr [cs ! i])"
proof -
  let ?cs = "map (\<lambda>r. corner_table (r ! 0) (r ! 1) (r ! 2)) dims"
  have "dimensions_to_corners dims = Inr ?cs"
    using assms by (simp add: dimensions_to_corners_closed rows_of_three)
  moreover have "list_all (is_matrix 8 3) ?cs"
    by (simp add: list_all_length is_matrix_corner_table)
  moreover have "dimensions_to_corners [dims ! i] = Inr [?cs ! i]" if "i < length dims" for i
  proof -
    have "length (dims ! i) = 3"
      using assms that by (simp add: list_all_length)
    then show ?thesis
      using that by (simp add: dimensions_to_corners_closed)
  qed
  ultimately show ?thesis
    by (intro exI[of _ ?cs]) simp
qed

theorem batch_is_stack_of_singles_witness:
  "\<exists>cs. dimensions_to_corners [[1, 2, 3], [4, 5, 6]] = Inr cs
      \<and> length cs = 2
      \<and> dimensions_to_corners [[1, 2, 3]] = Inr [cs ! 0]
      \<and> dimensions_to_corners [[4, 5, 6]] = Inr [cs ! 1]"
  using batch_is_stack_of_singles[of "[[1, 2, 3], [4, 5, 6]]"]
  by (auto simp: less_Suc_eq numeral_2_eq_2 all_conj_distrib)

section \<open>The angle function\<close>

text \<open>\<open>atan2 y x\<close> is the polar angle of the point \<open>(x, y)\<close>, in \<open>(-\<pi>, \<pi>]\<close>.\<close>

lemma atan2_range: "- pi < atan2 y x \<and> atan2 y x \<le> pi"
proof -
  have a: "- (pi / 2) < arctan u" "arctan u < pi / 2" for u :: real
    by (rule arctan_lbound, rule arctan_ubound)
  have neg: "arctan u < 0" if "u < 0" for u :: real
    using that by (simp add: arctan_less_zero_iff)
  have pos: "0 \<le> arctan u" if "0 \<le> u" for u :: real
    using that by (simp add: zero_le_arctan_iff)
  have nonpos: "arctan u \<le> 0" if "u \<le> 0" for u :: real
    using that by (simp add: arctan_le_zero_iff)
  show ?thesis
  proof (cases "0 < x")
    case True
    then show ?thesis
      using a[of "y / x"] pi_gt_zero by (simp add: atan2_def)
  next
    case False
    show ?thesis
    proof (cases "x < 0")
      case True
      show ?thesis
      proof (cases "0 \<le> y")
        case y: True
        then have "y / x \<le> 0" using True by (simp add: divide_nonneg_neg)
        then show ?thesis
          using True y a[of "y / x"] nonpos[of "y / x"] pi_gt_zero by (simp add: atan2_def)
      next
        case y: False
        then have "0 < y / x" using True by (simp add: divide_neg_neg)
        then show ?thesis
          using True y a[of "y / x"] pos[of "y / x"] pi_gt_zero by (simp add: atan2_def)
      qed
    next
      case x0: False
      then have "atan2 y x = pi / 2 \<or> atan2 y x = - pi / 2 \<or> atan2 y x = 0"
        using False by (simp add: atan2_def)
      then show ?thesis
        using pi_gt_zero by (elim disjE) (simp_all only:, linarith+)
    qed
  qed
qed

lemma atan2_polar:
  assumes "x \<noteq> 0 \<or> y \<noteq> 0"
  shows "x = sqrt (x\<^sup>2 + y\<^sup>2) * cos (atan2 y x) \<and> y = sqrt (x\<^sup>2 + y\<^sup>2) * sin (atan2 y x)"
proof (cases "x = 0")
  case True
  then show ?thesis
    using assms by (auto simp: atan2_def)
next
  case False
  define u where "u = y / x"
  have y: "y = u * x" using False by (simp add: u_def)
  have r: "sqrt (x\<^sup>2 + y\<^sup>2) = \<bar>x\<bar> * sqrt (1 + u\<^sup>2)"
  proof -
    have "x\<^sup>2 + y\<^sup>2 = x\<^sup>2 * (1 + u\<^sup>2)"
      by (simp add: y algebra_simps power2_eq_square)
    then show ?thesis
      by (simp add: real_sqrt_mult)
  qed
  have s: "sqrt (1 + u\<^sup>2) \<noteq> 0"
    by (metis add_nonneg_eq_0_iff real_sqrt_eq_zero_cancel_iff zero_le_power2 zero_neq_one zero_le_one)
  have c: "sqrt (x\<^sup>2 + y\<^sup>2) * cos (arctan u) = \<bar>x\<bar>"
    using s by (simp add: r cos_arctan)
  have si: "sqrt (x\<^sup>2 + y\<^sup>2) * sin (arctan u) = \<bar>x\<bar> * u"
    using s by (simp add: r sin_arctan)
  show ?thesis
  proof (cases "0 < x")
    case True
    then have "atan2 y x = arctan u"
      by (simp add: atan2_def u_def)
    then show ?thesis
      using True c si y by simp
  next
    case neg: False
    then have x: "x < 0" using False by simp
    show ?thesis
    proof (cases "0 \<le> y")
      case True
      then have "atan2 y x = arctan u + pi"
        using x by (simp add: atan2_def u_def)
      then have "sqrt (x\<^sup>2 + y\<^sup>2) * cos (atan2 y x) = - \<bar>x\<bar>"
        and "sqrt (x\<^sup>2 + y\<^sup>2) * sin (atan2 y x) = - (\<bar>x\<bar> * u)"
        using c si by simp_all
      then show ?thesis
        using x y by simp
    next
      case False
      then have "atan2 y x = arctan u - pi"
        using x by (simp add: atan2_def u_def)
      then have "sqrt (x\<^sup>2 + y\<^sup>2) * cos (atan2 y x) = - \<bar>x\<bar>"
        and "sqrt (x\<^sup>2 + y\<^sup>2) * sin (atan2 y x) = - (\<bar>x\<bar> * u)"
        using c si by (simp_all add: cos_diff sin_diff)
      then show ?thesis
        using x y by simp
    qed
  qed
qed

section \<open>Claims about the yaw and the constraints\<close>



text \<open>Once the box is unpacked and the two calibration matrices are read.\<close>

lemma solve_unpacked:
  assumes "bbox2D = [x1, y1, x2, y2]" and "calib ''P2'' = Some P2" and "calib ''R0_rect'' = Some R0"
  shows "solve_3d_bbox_single pinverse residual_norm bbox2D corners theta_l calib =
           solve_core pinverse residual_norm x1 y1 x2 y2 corners theta_l P2 R0"
  using assms by (simp add: solve_3d_bbox_single_def)

text \<open>The scenario of section 8 of the specification, evaluated.\<close>

lemma calib_identity_P2: "calib_identity ''P2'' = Some [[1, 0, 0, 0], [0, 1, 0, 0], [0, 0, 1, 0]]"
  by (simp add: calib_identity_def)

lemma calib_identity_R0: "calib_identity ''R0_rect'' = Some [[1, 0, 0], [0, 1, 0], [0, 0, 1]]"
  by (simp add: calib_identity_def)

lemma identity_shapes:
  "documented_shapes (corner_table h w l) [[1, 0, 0, 0], [0, 1, 0, 0], [0, 0, 1, 0]]
     [[1, 0, 0], [0, 1, 0], [0, 0, 1]]"
  by (simp add: documented_shapes_def is_matrix_corner_table) (simp add: is_matrix_def)

lemma identity_K:
  "projection_K [[1, 0, 0, 0], [0, 1, 0, 0], [0, 0, 1, 0]] [[1, 0, 0], [0, 1, 0], [0, 0, 1]] =
     [[1, 0, 0, 0], [0, 1, 0, 0], [0, 0, 1, 0]]"
  by (simp add: projection_K_def R0_rect_homogeneous_def assign_block33_def eye_4 dim1_def upt_4
      matmul_def dot_def column_def)

lemma identity_ry: "global_ry [[1, 0, 0, 0], [0, 1, 0, 0], [0, 0, 1, 0]] (- 1) 1 0 = pi / 2"
  by (simp add: global_ry_def theta_ray_def atan2_def)


text \<open>
  Claim C3. The ray angle is \<open>theta_ray = atan2(P2[0,0], (x1 + x2)/2 - P2[0,2])\<close>, the
  global yaw is \<open>ry = \<pi> - theta_ray - theta_l\<close>, and the function computes its result
  from the corners rotated by this yaw.
\<close>

theorem ray_angle_and_yaw:
  assumes "bbox2D = [x1, y1, x2, y2]" and "calib ''P2'' = Some P2" and "calib ''R0_rect'' = Some R0"
  shows "theta_ray P2 x1 x2 = atan2 (P2 ! 0 ! 0) ((x1 + x2) / 2 - P2 ! 0 ! 2)
       \<and> global_ry P2 x1 x2 theta_l = pi - atan2 (P2 ! 0 ! 0) ((x1 + x2) / 2 - P2 ! 0 ! 2) - theta_l
       \<and> solve_3d_bbox_single pinverse residual_norm bbox2D corners theta_l calib =
           return_trans (search pinverse residual_norm
             (build_constrains (projection_K P2 R0)
                (rotated_corners corners
                   (pi - atan2 (P2 ! 0 ! 0) ((x1 + x2) / 2 - P2 ! 0 ! 2) - theta_l))
                x1 y1 x2 y2))"
proof -
  have half: "(x1 + x2) * 0.5 = (x1 + x2) / 2"
    by simp
  show ?thesis
    using assms by (simp add: solve_unpacked solve_core_def Let_def global_ry_def theta_ray_def half)
qed

theorem ray_angle_and_yaw_witness:
  "theta_ray [[1, 0, 0, 0], [0, 1, 0, 0], [0, 0, 1, 0]] (- 1) 1 = pi / 2
   \<and> global_ry [[1, 0, 0, 0], [0, 1, 0, 0], [0, 0, 1, 0]] (- 1) 1 0 = pi / 2
   \<and> solve_3d_bbox_single pinverse_full_rank exact_residual [- 1, - 1, 1, 1] (corner_table 2 2 2) 0
         calib_identity =
       return_trans (search pinverse_full_rank exact_residual
         (build_constrains [[1, 0, 0, 0], [0, 1, 0, 0], [0, 0, 1, 0]]
            (rotated_corners (corner_table 2 2 2) (pi / 2)) (- 1) (- 1) 1 1))"
  using ray_angle_and_yaw[where pinverse = pinverse_full_rank and residual_norm = exact_residual
      and corners = "corner_table 2 2 2" and theta_l = 0 and ?y1.0 = "- 1" and ?y2.0 = 1,
      OF refl calib_identity_P2 calib_identity_R0]
  by (simp add: identity_K atan2_def)

lemma matrix34E:
  assumes "is_matrix 3 4 K"
  obtains k00 k01 k02 k03 k10 k11 k12 k13 k20 k21 k22 k23 :: real
  where "K = [[k00, k01, k02, k03], [k10, k11, k12, k13], [k20, k21, k22, k23]]"
proof -
  from assms obtain r0 r1 r2 where K: "K = [r0, r1, r2]"
    by (auto simp: is_matrix_def length_Suc_conv numeral_3_eq_3)
  with assms have "length r0 = 4" "length r1 = 4" "length r2 = 4"
    by (simp_all add: is_matrix_def)
  then obtain a0 b0 c0 d0 a1 b1 c1 d1 a2 b2 c2 d2
    where "r0 = [a0, b0, c0, d0]" "r1 = [a1, b1, c1, d1]" "r2 = [a2, b2, c2, d2]"
    by (auto simp: length_Suc_conv numeral_eq_Suc)
  with K that show thesis by blast
qed

text \<open>
  The meaning of a constraint: the translation \<open>t\<close> satisfies the equation of an x edge
  \<open>e\<close> exactly when the corner \<open>c\<close> moved by \<open>t\<close> projects, through \<open>K\<close>, to a point
  whose first homogeneous coordinate is \<open>e\<close> times the third; for a y edge, the second.
\<close>

lemma edge_constraint_is_projection:
  fixes K :: mat and c t :: vec and e :: real
  defines "K_X \<equiv> matmul K (assign_col3 (eye 4) c)"
    and "p \<equiv> matvec K (map2 (+) c t @ [1])"
  assumes "is_matrix 3 4 K" and "length c = 3" and "length t = 3"
  shows "dot (con_A (x_edge_constraint K_X e)) t = con_b (x_edge_constraint K_X e)
           \<longleftrightarrow> p ! 0 = e * p ! 2"
    and "dot (con_A (y_edge_constraint K_X e)) t = con_b (y_edge_constraint K_X e)
           \<longleftrightarrow> p ! 1 = e * p ! 2"
proof -
  obtain k00 k01 k02 k03 k10 k11 k12 k13 k20 k21 k22 k23
    where K: "K = [[k00, k01, k02, k03], [k10, k11, k12, k13], [k20, k21, k22, k23]]"
    using assms(3) by (rule matrix34E)
  obtain c0 c1 c2 where c: "c = [c0, c1, c2]"
    using assms(4) by (rule length3E)
  obtain t0 t1 t2 where t: "t = [t0, t1, t2]"
    using assms(5) by (rule length3E)
  have KX: "K_X = [[k00, k01, k02, k00 * c0 + k01 * c1 + k02 * c2 + k03],
                   [k10, k11, k12, k10 * c0 + k11 * c1 + k12 * c2 + k13],
                   [k20, k21, k22, k20 * c0 + k21 * c1 + k22 * c2 + k23]]"
    by (simp add: K_X_def K c assign_col3_eye matmul_def dot_def column_def dim1_def upt_4
        add.assoc)
  have p: "p = [k00 * (c0 + t0) + k01 * (c1 + t1) + k02 * (c2 + t2) + k03,
                k10 * (c0 + t0) + k11 * (c1 + t1) + k12 * (c2 + t2) + k13,
                k20 * (c0 + t0) + k21 * (c1 + t1) + k22 * (c2 + t2) + k23]"
    by (simp add: p_def K c t matvec_def dot_def add.assoc)
  show "dot (con_A (x_edge_constraint K_X e)) t = con_b (x_edge_constraint K_X e)
           \<longleftrightarrow> p ! 0 = e * p ! 2"
    unfolding KX p t by (simp add: x_edge_constraint_def dot_def vsub_def smul_def) argo
  show "dot (con_A (y_edge_constraint K_X e)) t = con_b (y_edge_constraint K_X e)
           \<longleftrightarrow> p ! 1 = e * p ! 2"
    unfolding KX p t by (simp add: y_edge_constraint_def dot_def vsub_def smul_def) argo
qed





section \<open>Claims about the search\<close>

lemma norm2_nonneg: "0 \<le> norm2 v"
proof -
  have "0 \<le> sum_list (map (\<lambda>x. x * x) v)"
    by (induction v) simp_all
  then show ?thesis
    by (simp add: norm2_def)
qed

lemma cand_r_nonneg: "0 \<le> cand_r pinverse K corners x1 y1 x2 y2 k"
  by (simp add: cand_r_def residual_def norm2_nonneg)


lemma identity_pinverse:
  "pinverse_full_rank [[1, 0, 1], [1, 0, - 1], [0, 1, 1], [0, 1, - 1]] =
     [[1 / 2, 1 / 2, 0, 0], [0, 0, 1 / 2, 1 / 2], [1 / 4, - (1 / 4), 1 / 4, - (1 / 4)]]"
  by (simp add: pinverse_full_rank_def transpose_mat_def inverse33_def det33_def matmul_def
      dot_def column_def dim1_def upt_3 upt_4 smul_def)


text \<open>The Penrose equations for the matrix of the scenario.\<close>

lemma identity_pinverse_penrose:
  fixes A X :: mat
  defines "A \<equiv> [[1, 0, 1], [1, 0, - 1], [0, 1, 1], [0, 1, - 1]]"
  defines "X \<equiv> pinverse_full_rank A"
  shows "matmul (matmul A X) A = A" and "matmul (matmul X A) X = X"
    and "transpose_mat (matmul A X) = matmul A X" and "transpose_mat (matmul X A) = matmul X A"
  unfolding X_def A_def identity_pinverse
  by (simp_all add: matmul_def transpose_mat_def dot_def column_def dim1_def upt_3 upt_4)



text \<open>
  A second scenario: identity calibration, the box \<open>(-1, -1, 1, 1)\<close>, the dimensions
  \<open>h = 4\<close>, \<open>w = 2\<close>, \<open>l = 2\<close> and \<open>theta_l = 0\<close>. In exact arithmetic system 2 of
  the enumeration is the only one with residual 0, and every other residual is at least 1.
\<close>

lemma tall_rotated:
  "rotated_corners (corner_table 4 2 2) (pi / 2) =
     [[1, 0, - 1], [1, 0, 1], [- 1, 0, 1], [- 1, 0, - 1],
      [1, - 4, - 1], [1, - 4, 1], [- 1, - 4, 1], [- 1, - 4, - 1]]"
  by (simp add: rotated_corners_def Ry_T_def corner_table_def matmul_def dot_def column_def
      dim1_def upt_3)

lemma tall_system_A:
  "system_A [[1, 0, 0, 0], [0, 1, 0, 0], [0, 0, 1, 0]]
     [[1, 0, - 1], [1, 0, 1], [- 1, 0, 1], [- 1, 0, - 1],
      [1, - 4, - 1], [1, - 4, 1], [- 1, - 4, 1], [- 1, - 4, - 1]] (- 1) (- 1) 1 1 sys =
   [[1, 0, 1], [1, 0, - 1], [0, 1, 1], [0, 1, - 1]]"
  by (cases sys)
     (simp add: system_A_def K_X_of_def assign_col3_eye x_edge_constraint_def
        y_edge_constraint_def matmul_def dot_def column_def dim1_def upt_4 vsub_def smul_def)

lemma tall_system_b:
  "map (system_b [[1, 0, 0, 0], [0, 1, 0, 0], [0, 0, 1, 0]]
          [[1, 0, - 1], [1, 0, 1], [- 1, 0, 1], [- 1, 0, - 1],
           [1, - 4, - 1], [1, - 4, 1], [- 1, - 4, 1], [- 1, - 4, - 1]] (- 1) (- 1) 1 1)
     enumeration =
   [[0, - 2, 3, - 1], [0, - 2, 5, - 1], [2, - 2, 3, - 1], [2, - 2, 5, - 1],
    [- 2, 0, 5, 1], [- 2, 0, 3, 1], [0, 0, 5, 1], [0, 0, 3, 1],
    [0, 2, 5, 1], [0, 2, 3, 1], [- 2, 2, 5, 1], [- 2, 2, 3, 1],
    [2, 0, 3, - 1], [2, 0, 5, - 1], [0, 0, 3, - 1], [0, 0, 5, - 1]]"
  by (simp add: enumeration_eq system_b_def K_X_of_def assign_col3_eye x_edge_constraint_def
      y_edge_constraint_def matmul_def dot_def column_def dim1_def upt_4)

lemma upt_16: "[0..<16] = [0, 1, 2, 3, 4, 5, 6, 7, 8, 9, 10, 11, 12, 13, 14, 15]"
  by (simp add: upt_rec)

lemma tall_candidate_2:
  "cand_t pinverse_full_rank [[1, 0, 0, 0], [0, 1, 0, 0], [0, 0, 1, 0]]
     [[1, 0, - 1], [1, 0, 1], [- 1, 0, 1], [- 1, 0, - 1],
      [1, - 4, - 1], [1, - 4, 1], [- 1, - 4, 1], [- 1, - 4, - 1]] (- 1) (- 1) 1 1 2 = [0, 1, 2]
   \<and> cand_r pinverse_full_rank [[1, 0, 0, 0], [0, 1, 0, 0], [0, 0, 1, 0]]
     [[1, 0, - 1], [1, 0, 1], [- 1, 0, 1], [- 1, 0, - 1],
      [1, - 4, - 1], [1, - 4, 1], [- 1, - 4, 1], [- 1, - 4, - 1]] (- 1) (- 1) 1 1 2 = 0"
  by (simp add: cand_t_def cand_r_def tall_system_A enumeration_eq system_b_def K_X_of_def
      assign_col3_eye x_edge_constraint_def y_edge_constraint_def matmul_def column_def dim1_def
      upt_4 identity_pinverse solution_def residual_def matvec_def dot_def vsub_def norm2_def)

lemma tall_other_candidates:
  "\<forall>k\<in>set [0..<16]. k \<noteq> 2 \<longrightarrow>
     1 \<le> cand_r pinverse_full_rank [[1, 0, 0, 0], [0, 1, 0, 0], [0, 0, 1, 0]]
           [[1, 0, - 1], [1, 0, 1], [- 1, 0, 1], [- 1, 0, - 1],
            [1, - 4, - 1], [1, - 4, 1], [- 1, - 4, 1], [- 1, - 4, - 1]] (- 1) (- 1) 1 1 k"
  unfolding upt_16
  by (simp add: cand_t_def cand_r_def tall_system_A enumeration_eq system_b_def K_X_of_def
      assign_col3_eye x_edge_constraint_def y_edge_constraint_def matmul_def column_def dim1_def
      upt_4 identity_pinverse solution_def residual_def matvec_def dot_def vsub_def norm2_def)

lemma tall_scenario_result:
  "solve_3d_bbox_single pinverse_full_rank exact_residual [- 1, - 1, 1, 1] (corner_table 4 2 2) 0
     calib_identity = Inr [0, 1, 2]"
proof -
  let ?K = "[[1, 0, 0, 0], [0, 1, 0, 0], [0, 0, 1, 0]] :: mat"
  let ?rc = "[[1, 0, - 1], [1, 0, 1], [- 1, 0, 1], [- 1, 0, - 1],
              [1, - 4, - 1], [1, - 4, 1], [- 1, - 4, 1], [- 1, - 4, - 1]] :: mat"
  have K: "?K = projection_K ?K [[1, 0, 0], [0, 1, 0], [0, 0, 1]]"
    by (simp add: identity_K)
  have rc: "?rc = rotated_corners (corner_table 4 2 2) (global_ry ?K (- 1) 1 0)"
    by (simp add: identity_ry tall_rotated)
  obtain k where k: "k < 16"
    and res: "solve_core pinverse_full_rank exact_residual (- 1) (- 1) 1 1 (corner_table 4 2 2) 0 ?K
                [[1, 0, 0], [0, 1, 0], [0, 0, 1]] =
              Inr (cand_t pinverse_full_rank ?K ?rc (- 1) (- 1) 1 1 k)"
    and least: "\<forall>j<16. cand_r pinverse_full_rank ?K ?rc (- 1) (- 1) 1 1 k
                      \<le> cand_r pinverse_full_rank ?K ?rc (- 1) (- 1) 1 1 j"
    using solve_core_selects_exact[OF K rc, where pinverse = pinverse_full_rank
        and ?y1.0 = "- 1" and ?y2.0 = 1]
    by blast
  have "cand_r pinverse_full_rank ?K ?rc (- 1) (- 1) 1 1 k \<le> 0"
    using least[rule_format, of 2] tall_candidate_2 by simp
  moreover have "k \<noteq> 2 \<longrightarrow> 1 \<le> cand_r pinverse_full_rank ?K ?rc (- 1) (- 1) 1 1 k"
    using tall_other_candidates k by simp
  ultimately have "k = 2"
    by fastforce
  then show ?thesis
    using res tall_candidate_2
    by (simp add: solve_unpacked[OF refl calib_identity_P2 calib_identity_R0])
qed

text \<open>
  Claim C10. Whenever the function returns \<open>t\<close> on an input of the documented shapes,
  \<open>t\<close> is \<open>pinv(A\<^sub>k) b\<^sub>k\<close> for a system \<open>k\<close> of the enumeration (hypotheses 0 to 3 of
  \<open>crp\<close>, within one hypothesis the candidates of x1, x2, y1, y2 in the order of the
  nested loops). The residual computed for system \<open>k\<close> is a number \<open>e\<close>; no system has
  a computed residual below \<open>e\<close>, and every earlier system whose computed residual is a
  number has a strictly greater one: the strict comparison keeps the earlier of two
  systems with equal residuals. The computed residuals are those of any function in the
  place of the float32 norm; a residual that is \<open>+inf\<close> or NaN is never selected.
\<close>

theorem returned_is_first_minimal_candidate:
  fixes P2 R0 corners :: mat and x1 y1 x2 y2 theta_l :: real
  defines "K \<equiv> projection_K P2 R0"
    and "rc \<equiv> rotated_corners corners (global_ry P2 x1 x2 theta_l)"
  assumes "bbox2D = [x1, y1, x2, y2]" and "calib ''P2'' = Some P2" and "calib ''R0_rect'' = Some R0"
    and "documented_shapes corners P2 R0"
    and "solve_3d_bbox_single pinverse residual_norm bbox2D corners theta_l calib = Inr t"
  shows "enumeration =
           [(6, 4, 5, 3), (6, 4, 7, 3), (7, 4, 5, 3), (7, 4, 7, 3),
            (5, 7, 4, 2), (5, 7, 6, 2), (6, 7, 4, 2), (6, 7, 6, 2),
            (4, 6, 7, 1), (4, 6, 5, 1), (5, 6, 7, 1), (5, 6, 5, 1),
            (7, 5, 6, 0), (7, 5, 4, 0), (4, 5, 6, 0), (4, 5, 4, 0)]
       \<and> (\<exists>k<16. \<exists>e.
             t = matvec (pinverse (system_A K rc x1 y1 x2 y2 (enumeration ! k)))
                   (system_b K rc x1 y1 x2 y2 (enumeration ! k))
           \<and> residual_norm (system_A K rc x1 y1 x2 y2 (enumeration ! k))
               (system_b K rc x1 y1 x2 y2 (enumeration ! k)) t = Number e
           \<and> (\<forall>j<16. \<forall>e'. cand_e residual_norm pinverse K rc x1 y1 x2 y2 j = Number e' \<longrightarrow> e \<le> e')
           \<and> (\<forall>j<k. \<forall>e'. cand_e residual_norm pinverse K rc x1 y1 x2 y2 j = Number e' \<longrightarrow> e < e'))"
proof -
  have K: "K = projection_K P2 R0" and rc: "rc = rotated_corners corners (global_ry P2 x1 x2 theta_l)"
    by (simp_all add: K_def rc_def)
  have core: "solve_core pinverse residual_norm x1 y1 x2 y2 corners theta_l P2 R0 = Inr t"
    using assms(3-5,7) by (simp add: solve_unpacked)
  from solve_core_selects[OF K rc, where pinverse = pinverse and residual_norm = residual_norm
      and ?y1.0 = y1 and ?y2.0 = y2] core
  obtain k e where k: "k < 16"
    and e: "cand_e residual_norm pinverse K rc x1 y1 x2 y2 k = Number e"
    and t: "t = cand_t pinverse K rc x1 y1 x2 y2 k"
    and least: "\<forall>j<16. \<forall>e'. cand_e residual_norm pinverse K rc x1 y1 x2 y2 j = Number e' \<longrightarrow> e \<le> e'"
    and first: "\<forall>j<k. \<forall>e'. cand_e residual_norm pinverse K rc x1 y1 x2 y2 j = Number e' \<longrightarrow> e < e'"
    by auto
  have "t = matvec (pinverse (system_A K rc x1 y1 x2 y2 (enumeration ! k)))
              (system_b K rc x1 y1 x2 y2 (enumeration ! k))"
    using t by (simp add: cand_t_def solution_def)
  moreover have "residual_norm (system_A K rc x1 y1 x2 y2 (enumeration ! k))
                   (system_b K rc x1 y1 x2 y2 (enumeration ! k)) t = Number e"
    using e t by (simp add: cand_e_def)
  ultimately show ?thesis
    using k least first enumeration_eq by blast
qed

text \<open>
  In the second scenario the function returns the solution \<open>[0, 1, 2]\<close> of system 2,
  the corners \<open>(7, 4, 5, 3)\<close>.
\<close>

theorem returned_is_first_minimal_candidate_witness:
  "solve_3d_bbox_single pinverse_full_rank exact_residual [- 1, - 1, 1, 1] (corner_table 4 2 2) 0
     calib_identity = Inr [0, 1, 2]
   \<and> enumeration ! 2 = (7, 4, 5, 3)
   \<and> [0, 1, 2] =
       matvec (pinverse_full_rank
                 (system_A [[1, 0, 0, 0], [0, 1, 0, 0], [0, 0, 1, 0]]
                    (rotated_corners (corner_table 4 2 2) (pi / 2)) (- 1) (- 1) 1 1 (enumeration ! 2)))
         (system_b [[1, 0, 0, 0], [0, 1, 0, 0], [0, 0, 1, 0]]
            (rotated_corners (corner_table 4 2 2) (pi / 2)) (- 1) (- 1) 1 1 (enumeration ! 2))
   \<and> exact_residual
         (system_A [[1, 0, 0, 0], [0, 1, 0, 0], [0, 0, 1, 0]]
            (rotated_corners (corner_table 4 2 2) (pi / 2)) (- 1) (- 1) 1 1 (enumeration ! 2))
         (system_b [[1, 0, 0, 0], [0, 1, 0, 0], [0, 0, 1, 0]]
            (rotated_corners (corner_table 4 2 2) (pi / 2)) (- 1) (- 1) 1 1 (enumeration ! 2))
         [0, 1, 2] = Number 0"
proof -
  let ?K = "[[1, 0, 0, 0], [0, 1, 0, 0], [0, 0, 1, 0]] :: mat"
  let ?rc = "rotated_corners (corner_table 4 2 2) (pi / 2)"
  from returned_is_first_minimal_candidate[where pinverse = pinverse_full_rank
      and residual_norm = exact_residual and theta_l = 0 and corners = "corner_table 4 2 2"
      and ?x1.0 = "- 1" and ?y1.0 = "- 1" and ?x2.0 = 1 and ?y2.0 = 1,
      OF refl calib_identity_P2 calib_identity_R0 identity_shapes tall_scenario_result]
  obtain k e where k: "k < 16"
    and t: "[0, 1, 2] = matvec (pinverse_full_rank (system_A ?K ?rc (- 1) (- 1) 1 1 (enumeration ! k)))
                          (system_b ?K ?rc (- 1) (- 1) 1 1 (enumeration ! k))"
    and e: "exact_residual (system_A ?K ?rc (- 1) (- 1) 1 1 (enumeration ! k))
              (system_b ?K ?rc (- 1) (- 1) 1 1 (enumeration ! k)) [0, 1, 2] = Number e"
    and least: "\<forall>j<16. \<forall>e'. cand_e exact_residual pinverse_full_rank ?K ?rc (- 1) (- 1) 1 1 j = Number e'
                  \<longrightarrow> e \<le> e'"
    unfolding identity_K identity_ry by auto
  have "e \<le> 0"
    using least[rule_format, of 2 0] tall_candidate_2 by (simp add: cand_e_exact tall_rotated)
  moreover have "e = cand_r pinverse_full_rank ?K ?rc (- 1) (- 1) 1 1 k"
    using e t by (simp add: exact_residual_def cand_r_def cand_t_def solution_def)
  moreover have "k \<noteq> 2 \<longrightarrow> 1 \<le> cand_r pinverse_full_rank ?K ?rc (- 1) (- 1) 1 1 k"
    using tall_other_candidates k by (simp add: tall_rotated)
  ultimately have k2: "k = 2" and e0: "e = 0"
    using cand_r_nonneg[of pinverse_full_rank ?K ?rc "- 1" "- 1" 1 1 k] by fastforce+
  show ?thesis
    using t e unfolding k2 e0 by (simp add: tall_scenario_result enumeration_eq)
qed

text \<open>
  Claim C6 says that the function never raises an error. The code does not keep it:
  \<open>trans\<close> is bound only where \<open>error_t < error\<close> holds, and that comparison is false
  for a residual that is \<open>+inf\<close> or NaN. On an input of the documented shapes for which
  none of the sixteen computed residuals is a number, the \<open>return\<close> finds \<open>trans\<close>
  unbound and raises UnboundLocalError.
\<close>

theorem trans_unbound_without_number:
  fixes P2 R0 corners :: mat and x1 y1 x2 y2 theta_l :: real
  defines "K \<equiv> projection_K P2 R0"
    and "rc \<equiv> rotated_corners corners (global_ry P2 x1 x2 theta_l)"
  assumes "bbox2D = [x1, y1, x2, y2]" and "calib ''P2'' = Some P2" and "calib ''R0_rect'' = Some R0"
    and "documented_shapes corners P2 R0"
    and "\<forall>k<16. \<forall>e. cand_e residual_norm pinverse K rc x1 y1 x2 y2 k \<noteq> Number e"
  shows "solve_3d_bbox_single pinverse residual_norm bbox2D corners theta_l calib =
           Inl UnboundLocalError"
proof -
  have K: "K = projection_K P2 R0" and rc: "rc = rotated_corners corners (global_ry P2 x1 x2 theta_l)"
    by (simp_all add: K_def rc_def)
  have "solve_core pinverse residual_norm x1 y1 x2 y2 corners theta_l P2 R0 = Inl UnboundLocalError"
    using solve_core_selects[OF K rc, where pinverse = pinverse and residual_norm = residual_norm
        and ?y1.0 = y1 and ?y2.0 = y2] assms(7)
    by auto
  then show ?thesis
    using assms(3-5) by (simp add: solve_unpacked)
qed

text \<open>
  The box \<open>(-10\<^sup>3\<^sup>0, -10\<^sup>3\<^sup>0, 10\<^sup>3\<^sup>0, 10\<^sup>3\<^sup>0)\<close> with the identity calibration, where
  every float32 residual overflows.
\<close>

theorem trans_unbound_without_number_witness:
  "solve_3d_bbox_single pinverse_full_rank (\<lambda>A b t. PosInfinity)
     [- (10 ^ 30), - (10 ^ 30), 10 ^ 30, 10 ^ 30] (corner_table 2 2 2) 0 calib_identity =
   Inl UnboundLocalError"
  by (rule trans_unbound_without_number[OF refl calib_identity_P2 calib_identity_R0 identity_shapes])
     (simp add: cand_e_def)

text \<open>
  The function returns exactly when one of the computed residuals is a number. The other
  two errors come from the unpacking of the box and from the calibration dictionary.
\<close>

lemma solve_returns_iff:
  fixes P2 R0 corners :: mat and x1 y1 x2 y2 theta_l :: real
  defines "K \<equiv> projection_K P2 R0"
    and "rc \<equiv> rotated_corners corners (global_ry P2 x1 x2 theta_l)"
  assumes "bbox2D = [x1, y1, x2, y2]" and "calib ''P2'' = Some P2" and "calib ''R0_rect'' = Some R0"
    and "documented_shapes corners P2 R0"
  shows "(\<exists>t. solve_3d_bbox_single pinverse residual_norm bbox2D corners theta_l calib = Inr t)
           \<longleftrightarrow> (\<exists>k<16. \<exists>e. cand_e residual_norm pinverse K rc x1 y1 x2 y2 k = Number e)"
proof -
  have K: "K = projection_K P2 R0" and rc: "rc = rotated_corners corners (global_ry P2 x1 x2 theta_l)"
    by (simp_all add: K_def rc_def)
  show ?thesis
    using solve_core_selects[OF K rc, where pinverse = pinverse and residual_norm = residual_norm
        and ?y1.0 = y1 and ?y2.0 = y2] assms(3-5)
    by (auto simp: solve_unpacked)
qed

lemma solve_value_error:
  assumes "length bbox2D \<noteq> 4"
  shows "solve_3d_bbox_single pinverse residual_norm bbox2D corners theta_l calib = Inl ValueError"
  using assms unfolding solve_3d_bbox_single_def by (auto split: list.splits)

lemma solve_key_error:
  assumes "length bbox2D = 4" and "calib ''P2'' = None \<or> calib ''R0_rect'' = None"
  shows "solve_3d_bbox_single pinverse residual_norm bbox2D corners theta_l calib = Inl KeyError"
  using assms unfolding solve_3d_bbox_single_def
  by (auto split: list.splits option.splits)

text \<open>
  Claim C4. The table \<open>crp\<close> has exactly four hypotheses; each has two candidates for
  x1, one for x2, two for y1 and one for y2, hence four systems; the enumeration has
  sixteen systems, and the search is exactly one solve for each of them, in order.
\<close>

theorem search_enumerates_sixteen:
  "length crp = 4
   \<and> list_all (\<lambda>cr. length (cr_x1 cr) = 2 \<and> length (cr_x2 cr) = 1
                    \<and> length (cr_y1 cr) = 2 \<and> length (cr_y2 cr) = 1
                    \<and> length (systems_of cr) = 4) crp
   \<and> length enumeration = 16
   \<and> search pinverse residual_norm (build_constrains K corners x1 y1 x2 y2) =
       Inr (foldl (\<lambda>s sys. solve_system pinverse residual_norm
                              (system_A K corners x1 y1 x2 y2 sys)
                              (system_b K corners x1 y1 x2 y2 sys) s)
              search_init enumeration)"
  by (simp add: search_unrolled length_enumeration) (simp add: crp_def systems_of_def)

end
